theory Spec2Isabelle
  imports Complex_Main
begin

section \<open>Conventions of the embedding\<close>

text \<open>
  The services under \<^verbatim>\<open>backend/services\<close> compute on Python floats and on numpy
  arrays. Throughout this development a finite float64 is a real number: arithmetic on
  finite values is exact (rounding and overflow to infinity are not modelled), while the
  special values NaN, +Inf and -Inf and the IEEE-754 rules for them are modelled
  explicitly. Zero carries no sign. An array is two-dimensional, a list of rows with a
  dtype. Every exception a function can raise is a value of the type \<open>error\<close>, and a
  function that can raise returns \<open>error + 'a\<close>.
\<close>

datatype error =
    ValueError string
  | IndexError
  | ZeroDivisionError
  | OverflowError

section \<open>Geographic windows (gee\_fusion\_service.py)\<close>


definition DEFAULT_WINDOW_SIZE :: int where
  "DEFAULT_WINDOW_SIZE = 256"




section \<open>numpy values and arrays\<close>

text \<open>A float64 value. \<open>Fin r\<close> is the finite value \<open>r\<close>.\<close>

datatype npfloat = Fin real | PInf | NInf | NaN

fun isnan :: "npfloat \<Rightarrow> bool" where
  "isnan NaN = True"
| "isnan _ = False"

fun isfinite :: "npfloat \<Rightarrow> bool" where
  "isfinite (Fin _) = True"
| "isfinite _ = False"

fun fneg :: "npfloat \<Rightarrow> npfloat" where
  "fneg (Fin a) = Fin (- a)"
| "fneg PInf = NInf"
| "fneg NInf = PInf"
| "fneg NaN = NaN"

text \<open>Addition: NaN is absorbing, and \<open>Inf + (-Inf)\<close> is NaN.\<close>

fun fadd :: "npfloat \<Rightarrow> npfloat \<Rightarrow> npfloat" where
  "fadd NaN _ = NaN"
| "fadd _ NaN = NaN"
| "fadd (Fin a) (Fin b) = Fin (a + b)"
| "fadd PInf NInf = NaN"
| "fadd NInf PInf = NaN"
| "fadd PInf _ = PInf"
| "fadd _ PInf = PInf"
| "fadd NInf _ = NInf"
| "fadd _ NInf = NInf"

definition fsub :: "npfloat \<Rightarrow> npfloat \<Rightarrow> npfloat" where
  "fsub x y = fadd x (fneg y)"

text \<open>Multiplication: \<open>0 * Inf\<close> is NaN.\<close>

fun fmul :: "npfloat \<Rightarrow> npfloat \<Rightarrow> npfloat" where
  "fmul NaN _ = NaN"
| "fmul _ NaN = NaN"
| "fmul (Fin a) (Fin b) = Fin (a * b)"
| "fmul (Fin a) y = (if a = 0 then NaN else if 0 < a then y else fneg y)"
| "fmul x (Fin b) = (if b = 0 then NaN else if 0 < b then x else fneg x)"
| "fmul PInf y = y"
| "fmul NInf y = fneg y"

text \<open>
  Division as numpy performs it with the floating-point errors ignored
  (\<^verbatim>\<open>np.errstate(divide='ignore', invalid='ignore')\<close>): \<open>x / 0\<close> is an infinity of the sign
  of \<open>x\<close>, \<open>0 / 0\<close> and \<open>Inf / Inf\<close> are NaN, and a finite value over an infinity is 0.
\<close>

fun fdiv :: "npfloat \<Rightarrow> npfloat \<Rightarrow> npfloat" where
  "fdiv NaN _ = NaN"
| "fdiv _ NaN = NaN"
| "fdiv (Fin a) (Fin b) =
     (if b = 0 then (if a = 0 then NaN else if 0 < a then PInf else NInf) else Fin (a / b))"
| "fdiv (Fin a) _ = Fin 0"
| "fdiv PInf (Fin b) = (if 0 \<le> b then PInf else NInf)"
| "fdiv NInf (Fin b) = (if 0 \<le> b then NInf else PInf)"
| "fdiv _ _ = NaN"

text \<open>Comparisons: every comparison with NaN is false, except \<open>!=\<close>, which is true.\<close>

fun fless :: "npfloat \<Rightarrow> npfloat \<Rightarrow> bool" where
  "fless NaN _ = False"
| "fless _ NaN = False"
| "fless (Fin a) (Fin b) = (a < b)"
| "fless _ NInf = False"
| "fless NInf _ = True"
| "fless PInf _ = False"
| "fless _ PInf = True"

definition fne :: "npfloat \<Rightarrow> npfloat \<Rightarrow> bool" where
  "fne x y = (isnan x \<or> isnan y \<or> x \<noteq> y)"

text \<open>\<^verbatim>\<open>np.nan_to_num(x, nan=.., posinf=.., neginf=..)\<close> on one value.\<close>

fun nan_to_num_val :: "real \<Rightarrow> real \<Rightarrow> real \<Rightarrow> npfloat \<Rightarrow> npfloat" where
  "nan_to_num_val nan posinf neginf (Fin a) = Fin a"
| "nan_to_num_val nan posinf neginf NaN = Fin nan"
| "nan_to_num_val nan posinf neginf PInf = Fin posinf"
| "nan_to_num_val nan posinf neginf NInf = Fin neginf"

text \<open>\<^verbatim>\<open>np.clip(x, lo, hi)\<close> on one value, that is \<open>minimum(maximum(x, lo), hi)\<close>; NaN stays NaN.\<close>

fun clip_val :: "real \<Rightarrow> real \<Rightarrow> npfloat \<Rightarrow> npfloat" where
  "clip_val lo hi (Fin a) = Fin (min (max a lo) hi)"
| "clip_val lo hi PInf = Fin hi"
| "clip_val lo hi NInf = Fin (min lo hi)"
| "clip_val lo hi NaN = NaN"

text \<open>
  Element types. \<open>int64\<close> stands for the integer dtypes and \<open>float64\<close> for the floating
  ones; the range of an integer dtype is modelled in the assignment to an element only
  (\<open>setitem_val\<close>), not in \<^verbatim>\<open>astype\<close>. An integer array holds values \<open>Fin (of_int k)\<close>.
\<close>

datatype dtype = int64 | float64

record ndarray =
  dtype :: dtype
  rows :: "npfloat list list"

text \<open>Python's \<open>int(x)\<close> on a float and numpy's cast to an integer dtype: truncation toward zero.\<close>

definition trunc :: "real \<Rightarrow> int" where
  "trunc x = (if 0 \<le> x then \<lfloor>x\<rfloor> else \<lceil>x\<rceil>)"

text \<open>
  \<^verbatim>\<open>astype\<close> on one value. Casting NaN or an infinity to an integer dtype raises
  nothing; numpy on x86-64 yields the least int64.
\<close>

fun astype_val :: "dtype \<Rightarrow> npfloat \<Rightarrow> npfloat" where
  "astype_val float64 x = x"
| "astype_val int64 (Fin a) = Fin (of_int (trunc a))"
| "astype_val int64 _ = Fin (- (2 ^ 63))"

definition astype :: "dtype \<Rightarrow> ndarray \<Rightarrow> ndarray" where
  "astype d a = \<lparr>dtype = d, rows = map (map (astype_val d)) (rows a)\<rparr>"

text \<open>
  The assignment \<^verbatim>\<open>result[i, j] = v\<close> of a float \<open>v\<close> to an element of an array of the
  given dtype. A float array takes every value. An int64 array takes a finite value
  truncated when that is an int64; the assignment raises ValueError for NaN and
  OverflowError for an infinity and for a value beyond the int64 range.
\<close>

definition in_int64 :: "int \<Rightarrow> bool" where
  "in_int64 k = (- (2 ^ 63) \<le> k \<and> k < 2 ^ 63)"

fun setitem_val :: "dtype \<Rightarrow> npfloat \<Rightarrow> error + npfloat" where
  "setitem_val float64 x = Inr x"
| "setitem_val int64 (Fin a) =
     (if in_int64 (trunc a) then Inr (Fin (of_int (trunc a))) else Inl OverflowError)"
| "setitem_val int64 NaN = Inl (ValueError ''cannot convert float NaN to integer'')"
| "setitem_val int64 PInf = Inl OverflowError"
| "setitem_val int64 NInf = Inl OverflowError"

text \<open>The values an array of the given dtype takes without an exception.\<close>

fun castable :: "dtype \<Rightarrow> npfloat \<Rightarrow> bool" where
  "castable float64 x = True"
| "castable int64 (Fin a) = in_int64 (trunc a)"
| "castable int64 x = False"

text \<open>
  The shape of a two-dimensional array given by its rows; \<open>rect\<close> says that the rows
  have one length, as in every numpy array. An array without rows has the shape
  \<open>(0, 0)\<close>: numpy's shapes \<open>(0, w)\<close> with \<open>w > 0\<close> have no counterpart here.
\<close>

definition shape :: "'a list list \<Rightarrow> nat \<times> nat" where
  "shape g = (length g, (case g of [] \<Rightarrow> 0 | r # _ \<Rightarrow> length r))"

definition rect :: "'a list list \<Rightarrow> bool" where
  "rect g = list_all (\<lambda>r. length r = snd (shape g)) g"

text \<open>The array of \<open>h\<close> rows and \<open>w\<close> columns whose element at \<open>(i, j)\<close> is \<open>f i j\<close>.\<close>

definition tabulate2 :: "nat \<Rightarrow> nat \<Rightarrow> (nat \<Rightarrow> nat \<Rightarrow> 'a) \<Rightarrow> 'a list list" where
  "tabulate2 h w f = map (\<lambda>i. map (\<lambda>j. f i j) [0..<w]) [0..<h]"

text \<open>
  Broadcasting of two two-dimensional operands: along each axis the lengths must be equal
  or one of them must be 1, and an axis of length 1 is repeated. Operands that cannot be
  broadcast raise ValueError.
\<close>

definition bdim :: "nat \<Rightarrow> nat \<Rightarrow> nat option" where
  "bdim m n = (if m = n then Some m else if m = 1 then Some n else if n = 1 then Some m else None)"

definition bshape :: "nat \<times> nat \<Rightarrow> nat \<times> nat \<Rightarrow> (nat \<times> nat) option" where
  "bshape s t =
     (case bdim (fst s) (fst t) of None \<Rightarrow> None
      | Some h \<Rightarrow> (case bdim (snd s) (snd t) of None \<Rightarrow> None | Some w \<Rightarrow> Some (h, w)))"

definition bget :: "'a list list \<Rightarrow> nat \<Rightarrow> nat \<Rightarrow> 'a" where
  "bget g i j = g ! (if fst (shape g) = 1 then 0 else i) ! (if snd (shape g) = 1 then 0 else j)"

definition broadcast2 :: "('a \<Rightarrow> 'b \<Rightarrow> 'c) \<Rightarrow> 'a list list \<Rightarrow> 'b list list \<Rightarrow> error + 'c list list" where
  "broadcast2 f a b =
     (case bshape (shape a) (shape b) of
        None \<Rightarrow> Inl (ValueError ''operands could not be broadcast together'')
      | Some (h, w) \<Rightarrow> Inr (tabulate2 h w (\<lambda>i j. f (bget a i j) (bget b i j))))"

text \<open>\<^verbatim>\<open>np.where(cond, x, y)\<close> on three arrays, broadcast together.\<close>

definition np_where :: "bool list list \<Rightarrow> 'a list list \<Rightarrow> 'a list list \<Rightarrow> error + 'a list list" where
  "np_where c x y =
     (case broadcast2 Pair c x of
        Inl e \<Rightarrow> Inl e
      | Inr cx \<Rightarrow> broadcast2 (\<lambda>p v. if fst p then snd p else v) cx y)"

text \<open>Indexing a Python sequence: a negative index counts from the end.\<close>

definition py_get :: "'a list \<Rightarrow> int \<Rightarrow> error + 'a" where
  "py_get xs i =
     (if 0 \<le> i \<and> i < int (length xs) then Inr (xs ! nat i)
      else if i < 0 \<and> - int (length xs) \<le> i then Inr (xs ! nat (int (length xs) + i))
      else Inl IndexError)"

section \<open>Spectral indices and gap filling (analysis.py, gee\_fusion\_service.py)\<close>

text \<open>
  \<^verbatim>\<open>AnalysisService.calculate_ndvi(nir, red)\<close>: the quotient of the difference and the sum
  of the two bands as floats, then \<^verbatim>\<open>nan_to_num\<close> with all three replacements 0, then the
  clip to \<open>[-1, 1]\<close>.
\<close>

definition calculate_ndvi :: "ndarray \<Rightarrow> ndarray \<Rightarrow> error + ndarray" where
  "calculate_ndvi nir red =
     (case broadcast2 fsub (rows (astype float64 nir)) (rows (astype float64 red)) of
        Inl e \<Rightarrow> Inl e
      | Inr num \<Rightarrow>
     (case broadcast2 fadd (rows (astype float64 nir)) (rows (astype float64 red)) of
        Inl e \<Rightarrow> Inl e
      | Inr den \<Rightarrow>
     (case broadcast2 fdiv num den of
        Inl e \<Rightarrow> Inl e
      | Inr ndvi \<Rightarrow>
          Inr \<lparr>dtype = float64,
               rows = map (map (clip_val (- 1) 1)) (map (map (nan_to_num_val 0 0 0)) ndvi)\<rparr>)))"

text \<open>
  \<^verbatim>\<open>AnalysisService.fuse_gap_fill\<close>: both indices come from \<open>calculate_ndvi\<close>; the
  validity mask is \<^verbatim>\<open>~np.isnan(sentinel_ndvi)\<close> and the merge is \<^verbatim>\<open>np.where\<close>.
\<close>

definition fuse_gap_fill :: "ndarray \<Rightarrow> ndarray \<Rightarrow> ndarray \<Rightarrow> ndarray \<Rightarrow> error + ndarray" where
  "fuse_gap_fill sentinel_nir sentinel_red landsat_nir landsat_red =
     (case calculate_ndvi sentinel_nir sentinel_red of
        Inl e \<Rightarrow> Inl e
      | Inr sentinel_ndvi \<Rightarrow>
     (case calculate_ndvi landsat_nir landsat_red of
        Inl e \<Rightarrow> Inl e
      | Inr landsat_ndvi \<Rightarrow>
          (let sentinel_valid = map (map (\<lambda>v. \<not> isnan v)) (rows sentinel_ndvi)
           in case np_where sentinel_valid (rows sentinel_ndvi) (rows landsat_ndvi) of
                Inl e \<Rightarrow> Inl e
              | Inr fused_ndvi \<Rightarrow> Inr \<lparr>dtype = float64, rows = fused_ndvi\<rparr>)))"

text \<open>
  \<^verbatim>\<open>GEEFusionService.compute_ndvi(fused_tensor, nir_idx, red_idx)\<close>. The tensor is the list of
  its bands; \<^verbatim>\<open>np.where(denominator != 0, (nir - red) / denominator, 0)\<close> evaluates the
  quotient everywhere and selects 0 where the denominator is 0. Nothing is replaced or
  clipped afterwards.
\<close>

definition compute_ndvi :: "ndarray list \<Rightarrow> int \<Rightarrow> int \<Rightarrow> error + ndarray" where
  "compute_ndvi fused_tensor nir_idx red_idx =
     (case py_get fused_tensor nir_idx of
        Inl e \<Rightarrow> Inl e
      | Inr nir_band \<Rightarrow>
     (case py_get fused_tensor red_idx of
        Inl e \<Rightarrow> Inl e
      | Inr red_band \<Rightarrow>
     (let nir = rows (astype float64 nir_band); red = rows (astype float64 red_band)
      in case broadcast2 fadd nir red of
        Inl e \<Rightarrow> Inl e
      | Inr denominator \<Rightarrow>
     (case broadcast2 fsub nir red of
        Inl e \<Rightarrow> Inl e
      | Inr num \<Rightarrow>
     (case broadcast2 fdiv num denominator of
        Inl e \<Rightarrow> Inl e
      | Inr q \<Rightarrow>
     (case broadcast2 (\<lambda>d v. if fne d (Fin 0) then v else Fin 0) denominator q of
        Inl e \<Rightarrow> Inl e
      | Inr ndvi \<Rightarrow> Inr \<lparr>dtype = float64, rows = ndvi\<rparr>))))))"

text \<open>The value \<open>calculate_ndvi\<close> computes at one pixel, for stating its properties.\<close>

definition ndvi_px :: "npfloat \<Rightarrow> npfloat \<Rightarrow> npfloat" where
  "ndvi_px n r = clip_val (- 1) 1 (nan_to_num_val 0 0 0 (fdiv (fsub n r) (fadd n r)))"

section \<open>Band compositing (analysis.py)\<close>

text \<open>
  The invariant of a numpy array: its rows have one length, and every element is a value
  of its dtype (an integer array holds integers).
\<close>

definition wf_ndarray :: "ndarray \<Rightarrow> bool" where
  "wf_ndarray a = (rect (rows a) \<and> list_all (list_all (\<lambda>v. astype_val (dtype a) v = v)) (rows a))"

text \<open>
  \<^verbatim>\<open>np.stack(arrays, axis=0)\<close>: the arrays must have one shape. The stack is the list of
  the arrays' rows; integer elements promoted to float keep their value.
\<close>

definition np_stack :: "ndarray list \<Rightarrow> error + npfloat list list list" where
  "np_stack arrays =
     (if arrays = [] then Inl (ValueError ''need at least one array to stack'')
      else if \<exists>a \<in> set arrays. shape (rows a) \<noteq> shape (rows (hd arrays))
        then Inl (ValueError ''all input arrays must have the same shape'')
      else Inr (map rows arrays))"

text \<open>\<^verbatim>\<open>stack[:, i, j]\<close>: the values of all observations at one pixel.\<close>

definition column :: "'a list list list \<Rightarrow> nat \<Rightarrow> nat \<Rightarrow> 'a list" where
  "column stack i j = map (\<lambda>g. g ! i ! j) stack"

text \<open>\<^verbatim>\<open>np.mean\<close> of the values at one pixel: their sum divided by their number, as floats.\<close>

definition np_mean_col :: "npfloat list \<Rightarrow> npfloat" where
  "np_mean_col xs = fdiv (foldl fadd (Fin 0) xs) (Fin (real (length xs)))"

fun insert_sorted :: "npfloat \<Rightarrow> npfloat list \<Rightarrow> npfloat list" where
  "insert_sorted x [] = [x]"
| "insert_sorted x (y # ys) = (if fless y x then y # insert_sorted x ys else x # y # ys)"

definition np_sort :: "npfloat list \<Rightarrow> npfloat list" where
  "np_sort xs = foldr insert_sorted xs []"

text \<open>
  \<^verbatim>\<open>np.median\<close> of the values at one pixel: NaN if one of them is NaN; otherwise the
  middle value of the sorted values, or the mean of the two middle values when their
  number is even.
\<close>

definition np_median_col :: "npfloat list \<Rightarrow> npfloat" where
  "np_median_col xs =
     (let n = length xs; s = np_sort xs
      in if n = 0 \<or> (\<exists>x \<in> set xs. isnan x) then NaN
         else if odd n then s ! (n div 2)
         else np_mean_col [s ! (n div 2 - 1), s ! (n div 2)])"

text \<open>A reduction along axis 0 of a stack: the result has the shape of one observation.\<close>

definition reduce_axis0 :: "(npfloat list \<Rightarrow> npfloat) \<Rightarrow> npfloat list list list \<Rightarrow> npfloat list list" where
  "reduce_axis0 f stack =
     (let s = shape (hd stack) in tabulate2 (fst s) (snd s) (\<lambda>i j. f (column stack i j)))"

text \<open>\<^verbatim>\<open>AnalysisService.fuse_mean(images)\<close>.\<close>

definition fuse_mean :: "ndarray list \<Rightarrow> error + ndarray" where
  "fuse_mean images =
     (if images = [] then Inl (ValueError ''No images provided'')
      else case np_stack images of
             Inl e \<Rightarrow> Inl e
           | Inr stack \<Rightarrow>
               Inr (astype (dtype (hd images)) \<lparr>dtype = float64, rows = reduce_axis0 np_mean_col stack\<rparr>))"

text \<open>\<^verbatim>\<open>AnalysisService.fuse_median(images)\<close>.\<close>

definition fuse_median :: "ndarray list \<Rightarrow> error + ndarray" where
  "fuse_median images =
     (if images = [] then Inl (ValueError ''No images provided'')
      else case np_stack images of
             Inl e \<Rightarrow> Inl e
           | Inr stack \<Rightarrow>
               Inr (astype (dtype (hd images)) \<lparr>dtype = float64, rows = reduce_axis0 np_median_col stack\<rparr>))"

text \<open>Reading \<^verbatim>\<open>a[i, j]\<close> with non-negative indices: IndexError outside the shape.\<close>

definition get2 :: "'a list list \<Rightarrow> nat \<Rightarrow> nat \<Rightarrow> error + 'a" where
  "get2 g i j = (if i < fst (shape g) \<and> j < snd (shape g) then Inr (g ! i ! j) else Inl IndexError)"

text \<open>Running a list of computations in order; the first exception ends the run.\<close>

fun sequence_err :: "(error + 'a) list \<Rightarrow> error + 'a list" where
  "sequence_err [] = Inr []"
| "sequence_err (x # xs) =
     (case x of
        Inl e \<Rightarrow> Inl e
      | Inr v \<Rightarrow> (case sequence_err xs of Inl e \<Rightarrow> Inl e | Inr vs \<Rightarrow> Inr (v # vs)))"

text \<open>
  The innermost loop of \<open>fuse_best_pixel\<close> at pixel \<open>(i, j)\<close>,
  \<^verbatim>\<open>for k, mask in enumerate(quality_masks)\<close>, from index \<open>k\<close> on: \<open>Some v\<close> when the loop
  breaks with the value \<open>v = images[k][i, j]\<close>, \<open>None\<close> when it runs to its \<^verbatim>\<open>else\<close>.
\<close>

fun select_pixel :: "ndarray list \<Rightarrow> nat \<Rightarrow> nat \<Rightarrow> nat \<Rightarrow> ndarray list \<Rightarrow> error + npfloat option" where
  "select_pixel images i j k [] = Inr None"
| "select_pixel images i j k (qmask # masks) =
     (case get2 (rows qmask) i j of
        Inl e \<Rightarrow> Inl e
      | Inr m \<Rightarrow>
          if fless (Fin 0) m
          then (if k < length images
                then (case get2 (rows (images ! k)) i j of Inl e \<Rightarrow> Inl e | Inr v \<Rightarrow> Inr (Some v))
                else Inl IndexError)
          else select_pixel images i j (Suc k) masks)"

text \<open>
  \<^verbatim>\<open>AnalysisService.fuse_best_pixel(images, quality_masks)\<close>. The default
  \<^verbatim>\<open>quality_masks=None\<close> is the empty list, which the test \<^verbatim>\<open>if quality_masks:\<close> treats alike.
  The array \<open>result\<close> has the dtype of the first image, and the assignments to its
  elements are \<open>setitem_val\<close>.
\<close>

definition fuse_best_pixel :: "ndarray list \<Rightarrow> ndarray list \<Rightarrow> error + ndarray" where
  "fuse_best_pixel images quality_masks =
     (if images = [] then Inl (ValueError ''No images provided for fusion'')
      else if length images = 1 then Inr (hd images)
      else
        let shp = shape (rows (hd images)) in
        if \<exists>img \<in> set (tl images). shape (rows img) \<noteq> shp
        then Inl (ValueError ''All images must have the same shape'')
        else case np_stack images of
               Inl e \<Rightarrow> Inl e
             | Inr stack \<Rightarrow>
                 if quality_masks \<noteq> [] then
                   (case np_stack quality_masks of
                      Inl e \<Rightarrow> Inl e
                    | Inr mask_stack \<Rightarrow>
                        (case sequence_err (map (\<lambda>i. sequence_err (map (\<lambda>j.
                                 (case select_pixel images i j 0 quality_masks of
                                    Inl e \<Rightarrow> Inl e
                                  | Inr (Some v) \<Rightarrow> setitem_val (dtype (hd images)) v
                                  | Inr None \<Rightarrow>
                                      setitem_val (dtype (hd images)) (np_median_col (column stack i j))))
                               [0..<snd shp])) [0..<fst shp]) of
                           Inl e \<Rightarrow> Inl e
                         | Inr result \<Rightarrow> Inr \<lparr>dtype = dtype (hd images), rows = result\<rparr>))
                 else Inr (astype (dtype (hd images))
                            \<lparr>dtype = float64, rows = reduce_axis0 np_median_col stack\<rparr>))"

text \<open>
  The selection as the specification words it: at pixel \<open>(i, j)\<close> the value of the first
  observation, in input order, whose mask is greater than 0 there, and the median of all
  observations when there is none.
\<close>

definition best_pixel_spec :: "ndarray list \<Rightarrow> ndarray list \<Rightarrow> nat \<Rightarrow> nat \<Rightarrow> npfloat" where
  "best_pixel_spec images quality_masks i j =
     (case find (\<lambda>p. fless (Fin 0) (rows (snd p) ! i ! j)) (zip images quality_masks) of
        Some p \<Rightarrow> rows (fst p) ! i ! j
      | None \<Rightarrow> np_median_col (column (map rows images) i j))"

section \<open>Resampling (analysis.py, gee\_fusion\_service.py)\<close>

text \<open>
  An index into an axis of length \<open>n\<close>: a negative index counts from the end, an index
  outside \<open>[-n, n)\<close> raises IndexError.
\<close>

definition py_norm :: "nat \<Rightarrow> int \<Rightarrow> error + nat" where
  "py_norm n i =
     (if 0 \<le> i \<and> i < int n then Inr (nat i)
      else if i < 0 \<and> - int n \<le> i then Inr (nat (int n + i))
      else Inl IndexError)"

text \<open>
  \<^verbatim>\<open>(np.arange(new_n) * n / new_n).astype(int)\<close>: the products are integers, the division
  is the float division, and the cast truncates. \<^verbatim>\<open>np.arange\<close> of a number that is not
  positive is empty.
\<close>

definition nearest_indices :: "nat \<Rightarrow> int \<Rightarrow> int list" where
  "nearest_indices n new_n =
     map (\<lambda>i. trunc (real_of_int (int i * int n) / real_of_int new_n)) [0..<nat new_n]"

text \<open>\<^verbatim>\<open>array[np.ix_(y_indices, x_indices)]\<close>: the grid of the selected rows and columns.\<close>

definition ix_select :: "ndarray \<Rightarrow> int list \<Rightarrow> int list \<Rightarrow> error + ndarray" where
  "ix_select array y_indices x_indices =
     (case sequence_err (map (py_norm (fst (shape (rows array)))) y_indices) of
        Inl e \<Rightarrow> Inl e
      | Inr ys \<Rightarrow>
     (case sequence_err (map (py_norm (snd (shape (rows array)))) x_indices) of
        Inl e \<Rightarrow> Inl e
      | Inr xs \<Rightarrow>
          Inr \<lparr>dtype = dtype array, rows = map (\<lambda>y. map (\<lambda>x. rows array ! y ! x) xs) ys\<rparr>))"

text \<open>\<^verbatim>\<open>AnalysisService._resample_nearest(array, new_h, new_w)\<close>.\<close>

definition resample_nearest :: "ndarray \<Rightarrow> int \<Rightarrow> int \<Rightarrow> error + ndarray" where
  "resample_nearest array new_h new_w =
     (let h = fst (shape (rows array)); w = snd (shape (rows array));
          y_indices = nearest_indices h new_h;
          x_indices = nearest_indices w new_w
      in ix_select array y_indices x_indices)"

text \<open>
  \<^verbatim>\<open>np.linspace(0, stop, num)\<close> for \<open>num \<ge> 0\<close>: \<open>num\<close> evenly spaced samples from 0 to
  \<open>stop\<close>, the single sample being 0.
\<close>

definition linspace0 :: "real \<Rightarrow> nat \<Rightarrow> real list" where
  "linspace0 stop num =
     (if num = 1 then [0] else map (\<lambda>i. real i * (stop / real (num - 1))) [0..<num])"

text \<open>Reading \<^verbatim>\<open>a[y, x]\<close> with Python integers as indices.\<close>

definition py_get2 :: "'a list list \<Rightarrow> int \<Rightarrow> int \<Rightarrow> error + 'a" where
  "py_get2 g y x =
     (case py_norm (fst (shape g)) y of
        Inl e \<Rightarrow> Inl e
      | Inr i \<Rightarrow> (case py_norm (snd (shape g)) x of Inl e \<Rightarrow> Inl e | Inr j \<Rightarrow> Inr (g ! i ! j)))"

text \<open>
  The body of the two loops of \<^verbatim>\<open>_resample_bilinear\<close> at the sample position
  \<open>(yi, xi)\<close>: the four neighbours weighted by the fractional parts, and the
  assignment \<^verbatim>\<open>result[i, j] = ...\<close> to an element of the dtype of the array.
\<close>

definition bilinear_pixel :: "ndarray \<Rightarrow> real \<Rightarrow> real \<Rightarrow> error + npfloat" where
  "bilinear_pixel array yi xi =
     (let h = int (fst (shape (rows array))); w = int (snd (shape (rows array)));
          y0 = trunc yi; y1 = min (trunc yi + 1) (h - 1);
          x0 = trunc xi; x1 = min (trunc xi + 1) (w - 1);
          fy = yi - real_of_int y0;
          fx = xi - real_of_int x0
      in case py_get2 (rows array) y0 x0 of Inl e \<Rightarrow> Inl e | Inr a00 \<Rightarrow>
        (case py_get2 (rows array) y0 x1 of Inl e \<Rightarrow> Inl e | Inr a01 \<Rightarrow>
        (case py_get2 (rows array) y1 x0 of Inl e \<Rightarrow> Inl e | Inr a10 \<Rightarrow>
        (case py_get2 (rows array) y1 x1 of Inl e \<Rightarrow> Inl e | Inr a11 \<Rightarrow>
           setitem_val (dtype array)
             (fadd (fadd (fadd (fmul (fmul a00 (Fin (1 - fx))) (Fin (1 - fy)))
                               (fmul (fmul a01 (Fin fx)) (Fin (1 - fy))))
                         (fmul (fmul a10 (Fin (1 - fx))) (Fin fy)))
                   (fmul (fmul a11 (Fin fx)) (Fin fy)))))))"

text \<open>
  \<^verbatim>\<open>AnalysisService._resample_bilinear(array, new_h, new_w)\<close>. \<^verbatim>\<open>np.linspace\<close> raises
  ValueError for a negative number of samples.
\<close>

definition resample_bilinear :: "ndarray \<Rightarrow> int \<Rightarrow> int \<Rightarrow> error + ndarray" where
  "resample_bilinear array new_h new_w =
     (let h = int (fst (shape (rows array))); w = int (snd (shape (rows array)))
      in if new_h < 0 \<or> new_w < 0
         then Inl (ValueError ''Number of samples must be non-negative'')
         else
           let y = linspace0 (real_of_int (h - 1)) (nat new_h);
               x = linspace0 (real_of_int (w - 1)) (nat new_w)
           in case sequence_err (map (\<lambda>yi. sequence_err (map (\<lambda>xi. bilinear_pixel array yi xi) x)) y) of
                Inl e \<Rightarrow> Inl e
              | Inr result \<Rightarrow> Inr \<lparr>dtype = dtype array, rows = result\<rparr>)"

text \<open>\<^verbatim>\<open>AnalysisService._resample_bicubic(array, new_h, new_w)\<close>.\<close>

definition resample_bicubic :: "ndarray \<Rightarrow> int \<Rightarrow> int \<Rightarrow> error + ndarray" where
  "resample_bicubic array new_h new_w = resample_bilinear array new_h new_w"

text \<open>
  \<^verbatim>\<open>AnalysisService.resample_array(array, source_resolution, target_resolution, method)\<close>.
  The division of the resolutions is a Python division, which raises ZeroDivisionError
  on a zero divisor; \<open>int(...)\<close> truncates.
\<close>

definition resample_array :: "ndarray \<Rightarrow> real \<Rightarrow> real \<Rightarrow> string \<Rightarrow> error + ndarray" where
  "resample_array array source_resolution target_resolution method =
     (if source_resolution = target_resolution then Inr array
      else if target_resolution = 0 then Inl ZeroDivisionError
      else
        let scale_factor = source_resolution / target_resolution;
            new_height = trunc (real (fst (shape (rows array))) * scale_factor);
            new_width = trunc (real (snd (shape (rows array))) * scale_factor)
        in if method = ''nearest'' then resample_nearest array new_height new_width
           else if method = ''bilinear'' then resample_bilinear array new_height new_width
           else if method = ''bicubic'' then resample_bicubic array new_height new_width
           else Inl (ValueError (''Unknown resampling method: '' @ method)))"

text \<open>
  \<^verbatim>\<open>GEEFusionService.resample_to_target(source, target_shape, method)\<close> on a
  two-dimensional source; for a three-dimensional source the function makes the same
  call once per band. \<^verbatim>\<open>scipy.ndimage.zoom(input, zoom, order, mode='nearest')\<close> is a
  library function and a parameter \<open>zoom\<close> here, called with the array, the pair of zoom
  factors and the order. The two divisions are Python divisions.
\<close>

definition resample_to_target ::
  "(ndarray \<Rightarrow> real \<times> real \<Rightarrow> nat \<Rightarrow> error + ndarray) \<Rightarrow> ndarray \<Rightarrow> nat \<times> nat \<Rightarrow> string \<Rightarrow> error + ndarray" where
  "resample_to_target zoom source target_shape method =
     (if shape (rows source) = target_shape then Inr source
      else
        let order = (if method = ''bilinear'' then 1 else 0 :: nat)
        in if fst (shape (rows source)) = 0 then Inl ZeroDivisionError
           else if snd (shape (rows source)) = 0 then Inl ZeroDivisionError
           else
             let zoom_h = real (fst target_shape) / real (fst (shape (rows source)));
                 zoom_w = real (snd target_shape) / real (snd (shape (rows source)))
             in zoom source (zoom_h, zoom_w) order)"

text \<open>
  What \<^verbatim>\<open>scipy.ndimage.zoom\<close> promises at order 0, nearest-neighbour interpolation, on a
  non-empty array with positive zoom factors: it returns an array, and every value of
  that array is a value of the input.
\<close>

definition order0_contract :: "(ndarray \<Rightarrow> real \<times> real \<Rightarrow> nat \<Rightarrow> error + ndarray) \<Rightarrow> bool" where
  "order0_contract zoom =
     (\<forall>input z. rect (rows input) \<and> 0 < fst (shape (rows input)) \<and> 0 < snd (shape (rows input))
                 \<and> 0 < fst z \<and> 0 < snd z
        \<longrightarrow> (\<exists>out. zoom input z 0 = Inr out \<and> set (concat (rows out)) \<subseteq> set (concat (rows input))))"

text \<open>
  A zoom of order 0 after the library's description, as an instance of the parameter
  \<open>zoom\<close>: along an axis of \<open>n\<close> samples the output has \<open>n\<close> times the factor samples,
  rounded, and the output sample \<open>k\<close> of \<open>out\<close> is the input sample nearest to
  \<open>k * (n - 1) / (out - 1)\<close>.
\<close>

definition zoom_index :: "nat \<Rightarrow> nat \<Rightarrow> nat \<Rightarrow> nat" where
  "zoom_index n out k =
     min (n - 1) (nat \<lfloor>real k * (if out \<le> 1 then 1 else real (n - 1) / real (out - 1)) + 1 / 2\<rfloor>)"

definition zoom_order0 :: "ndarray \<Rightarrow> real \<times> real \<Rightarrow> nat \<Rightarrow> error + ndarray" where
  "zoom_order0 input z order =
     (let h = fst (shape (rows input)); w = snd (shape (rows input));
          out_h = nat (round (real h * fst z)); out_w = nat (round (real w * snd z))
      in Inr \<lparr>dtype = dtype input,
              rows = tabulate2 out_h out_w
                       (\<lambda>i j. rows input ! zoom_index h out_h i ! zoom_index w out_w j)\<rparr>)"

section \<open>Cache cleanup (cache\_service.py)\<close>

text \<open>
  The three directories of derivatives. The file of a cache key in a directory is
  \<^verbatim>\<open>file_dir / f"{cache_key}.webp"\<close>, identified here by the directory and the key.
\<close>

datatype cache_dir = Full | Thumb | Preview

type_synonym path = "cache_dir \<times> string"

text \<open>
  A metadata record; \<open>cleanup_old_cache\<close> reads only its \<open>timestamp\<close>, which
  \<^verbatim>\<open>meta.get('timestamp')\<close> yields as \<open>None\<close> when absent.
\<close>

record meta =
  timestamp :: "string option"

text \<open>
  The state the cleanup works on: the metadata dictionary in its iteration order, the
  existing files with their sizes in bytes, and the files on which \<^verbatim>\<open>os.remove\<close> raises.
  Rewriting \<^verbatim>\<open>metadata.json\<close> after the sweep is not modelled.
\<close>

record cache_state =
  metadata :: "(string \<times> meta) list"
  files :: "path \<Rightarrow> nat option"
  remove_fails :: "path \<Rightarrow> bool"

text \<open>The dictionary the cleanup returns.\<close>

record cleanup_report =
  items_removed :: nat
  space_freed_mb :: real

text \<open>
  A \<^verbatim>\<open>datetime\<close> is the number of microseconds since 0001-01-01T00:00:00; the greatest one
  is 9999-12-31T23:59:59.999999.
\<close>

definition datetime_max :: int where
  "datetime_max = 315537897599999999"

text \<open>
  \<^verbatim>\<open>datetime.now() - timedelta(days=max_age_days)\<close>: \<^verbatim>\<open>timedelta\<close> raises OverflowError
  beyond 999999999 days, and so does the subtraction when the result is no \<^verbatim>\<open>datetime\<close>.
\<close>

definition cutoff_time :: "int \<Rightarrow> int \<Rightarrow> error + int" where
  "cutoff_time now max_age_days =
     (if \<bar>max_age_days\<bar> > 999999999 then Inl OverflowError
      else
        let cutoff = now - max_age_days * 86400000000
        in if cutoff < 0 \<or> datetime_max < cutoff then Inl OverflowError else Inr cutoff)"

text \<open>
  The test of the first loop on one record: the timestamp is present and not empty, it
  parses, and it is before the cutoff. \<open>fromisoformat\<close> stands for
  \<^verbatim>\<open>datetime.fromisoformat\<close> and is \<open>None\<close> where the parse or the comparison raises, which
  the bare \<^verbatim>\<open>except\<close> passes over.
\<close>

definition is_old :: "(string \<Rightarrow> int option) \<Rightarrow> int \<Rightarrow> meta \<Rightarrow> bool" where
  "is_old fromisoformat cutoff m =
     (case timestamp m of
        None \<Rightarrow> False
      | Some timestamp_str \<Rightarrow>
          timestamp_str \<noteq> [] \<and>
          (case fromisoformat timestamp_str of None \<Rightarrow> False | Some ts \<Rightarrow> ts < cutoff))"

definition keys_to_remove :: "(string \<Rightarrow> int option) \<Rightarrow> int \<Rightarrow> (string \<times> meta) list \<Rightarrow> string list" where
  "keys_to_remove fromisoformat cutoff md =
     map fst (filter (\<lambda>entry. is_old fromisoformat cutoff (snd entry)) md)"

text \<open>
  The inner loop over the three directories for one key, inside the \<^verbatim>\<open>try\<close>: the size of
  an existing file is added to \<open>space_freed\<close> before \<^verbatim>\<open>os.remove\<close> is called. The first
  component of the result is false when \<^verbatim>\<open>os.remove\<close> raised.
\<close>

fun remove_entry_files ::
  "(path \<Rightarrow> bool) \<Rightarrow> string \<Rightarrow> cache_dir list \<Rightarrow> (path \<Rightarrow> nat option) \<Rightarrow> nat \<Rightarrow> bool \<times> (path \<Rightarrow> nat option) \<times> nat" where
  "remove_entry_files fails cache_key [] fs space_freed = (True, fs, space_freed)"
| "remove_entry_files fails cache_key (file_dir # dirs) fs space_freed =
     (case fs (file_dir, cache_key) of
        None \<Rightarrow> remove_entry_files fails cache_key dirs fs space_freed
      | Some sz \<Rightarrow>
          if fails (file_dir, cache_key) then (False, fs, space_freed + sz)
          else remove_entry_files fails cache_key dirs (fs((file_dir, cache_key) := None)) (space_freed + sz))"

text \<open>
  The second loop, over \<open>keys_to_remove\<close>. When the removal of the files raised, or
  \<^verbatim>\<open>del self.metadata[cache_key]\<close> finds no such key, the \<^verbatim>\<open>except\<close> branch leaves the
  record in place and does not count the item.
\<close>

fun cleanup_loop :: "string list \<Rightarrow> cache_state \<Rightarrow> nat \<Rightarrow> nat \<Rightarrow> cache_state \<times> nat \<times> nat" where
  "cleanup_loop [] st items space_freed = (st, items, space_freed)"
| "cleanup_loop (cache_key # keys) st items space_freed =
     (case remove_entry_files (remove_fails st) cache_key [Full, Thumb, Preview] (files st) space_freed of
        (removed, fs, space_freed') \<Rightarrow>
          if removed \<and> cache_key \<in> fst ` set (metadata st)
          then cleanup_loop keys
                 (st\<lparr>files := fs, metadata := filter (\<lambda>entry. fst entry \<noteq> cache_key) (metadata st)\<rparr>)
                 (items + 1) space_freed'
          else cleanup_loop keys (st\<lparr>files := fs\<rparr>) items space_freed')"

text \<open>\<^verbatim>\<open>CacheService.cleanup_old_cache(max_age_days)\<close>, with the clock reading \<open>now\<close>.\<close>

definition cleanup_old_cache ::
  "(string \<Rightarrow> int option) \<Rightarrow> int \<Rightarrow> cache_state \<Rightarrow> int \<Rightarrow> error + (cache_state \<times> cleanup_report)" where
  "cleanup_old_cache fromisoformat now st max_age_days =
     (case cutoff_time now max_age_days of
        Inl e \<Rightarrow> Inl e
      | Inr cutoff \<Rightarrow>
          (case cleanup_loop (keys_to_remove fromisoformat cutoff (metadata st)) st 0 0 of
             (st', items, space_freed) \<Rightarrow>
               Inr (st', \<lparr>items_removed = items,
                          space_freed_mb = real space_freed / (1024 * 1024)\<rparr>)))"


text \<open>A parse of the two timestamps of the example cache, and the example cache.\<close>

definition example_fromisoformat :: "string \<Rightarrow> int option" where
  "example_fromisoformat s =
     (if s = ''2020-01-01T00:00:00'' then Some 63713433600000000
      else if s = ''2025-01-01T00:00:00'' then Some 63871286400000000
      else None)"

definition example_cache :: cache_state where
  "example_cache =
     \<lparr>metadata = [(''a'', \<lparr>timestamp = Some ''2020-01-01T00:00:00''\<rparr>),
                  (''b'', \<lparr>timestamp = Some ''2025-01-01T00:00:00''\<rparr>),
                  (''c'', \<lparr>timestamp = None\<rparr>)],
      files = [(Full, ''a'') \<mapsto> 1048576, (Thumb, ''a'') \<mapsto> 524288, (Full, ''b'') \<mapsto> 7],
      remove_fails = (\<lambda>p. False)\<rparr>"



section \<open>Properties of the geographic window\<close>








section \<open>Facts about arrays and broadcasting\<close>

lemma length_tabulate2 [simp]: "length (tabulate2 h w f) = h"
  by (simp add: tabulate2_def)

lemma nth_tabulate2 [simp]: "i < h \<Longrightarrow> tabulate2 h w f ! i = map (f i) [0..<w]"
  by (simp add: tabulate2_def)

lemma nth_nth_tabulate2 [simp]: "i < h \<Longrightarrow> j < w \<Longrightarrow> tabulate2 h w f ! i ! j = f i j"
  by (simp add: tabulate2_def)

lemma shape_tabulate2: "shape (tabulate2 h w f) = (h, if h = 0 then 0 else w)"
  by (cases h) (simp_all add: shape_def tabulate2_def upt_conv_Cons del: upt_Suc)

lemma rect_tabulate2: "rect (tabulate2 h w f)"
  by (cases h) (auto simp add: rect_def shape_def tabulate2_def list_all_iff upt_conv_Cons simp del: upt_Suc)

lemma shape_tabulate2_shape: "shape (tabulate2 (fst (shape g)) (snd (shape g)) f) = shape g"
  by (cases g) (simp_all add: shape_tabulate2, simp_all add: shape_def)

lemma tabulate2_cong:
  "(\<And>i j. i < h \<Longrightarrow> j < w \<Longrightarrow> f i j = g i j) \<Longrightarrow> tabulate2 h w f = tabulate2 h w g"
  by (simp add: tabulate2_def)

lemma map_map_tabulate2: "map (map g) (tabulate2 h w f) = tabulate2 h w (\<lambda>i j. g (f i j))"
  by (simp add: tabulate2_def)

lemma tabulate2_zero_width: "tabulate2 h (if h = 0 then 0 else w) f = tabulate2 h w f"
  by (simp add: tabulate2_def)

lemma tabulate2_rows:
  assumes "rect g"
  shows "tabulate2 (fst (shape g)) (snd (shape g)) (\<lambda>i j. g ! i ! j) = g"
proof (rule nth_equalityI)
  show "length (tabulate2 (fst (shape g)) (snd (shape g)) (\<lambda>i j. g ! i ! j)) = length g"
    by (simp add: shape_def)
next
  fix i
  assume "i < length (tabulate2 (fst (shape g)) (snd (shape g)) (\<lambda>i j. g ! i ! j))"
  then have i: "i < length g" by (simp add: shape_def)
  then have "length (g ! i) = snd (shape g)"
    using assms by (auto simp: rect_def list_all_iff)
  then have "map ((!) (g ! i)) [0..<snd (shape g)] = g ! i"
    using map_nth [of "g ! i"] by simp
  then show "tabulate2 (fst (shape g)) (snd (shape g)) (\<lambda>i j. g ! i ! j) ! i = g ! i"
    using i by (simp add: shape_def)
qed

lemma bget_in: "i < fst (shape g) \<Longrightarrow> j < snd (shape g) \<Longrightarrow> bget g i j = g ! i ! j"
  by (auto simp: bget_def)

lemma bshape_same: "bshape s s = Some s"
  by (simp add: bshape_def bdim_def)

lemma broadcast2_same:
  "shape a = shape b \<Longrightarrow>
   broadcast2 f a b = Inr (tabulate2 (fst (shape a)) (snd (shape a)) (\<lambda>i j. f (a ! i ! j) (b ! i ! j)))"
  by (simp add: broadcast2_def bshape_same split: prod.splits) (auto simp: tabulate2_def bget_in)

lemma broadcast2_tabulate2:
  "broadcast2 f (tabulate2 h w p) (tabulate2 h w q) =
     Inr (tabulate2 h (if h = 0 then 0 else w) (\<lambda>i j. f (p i j) (q i j)))"
proof -
  have s: "shape (tabulate2 h w p) = shape (tabulate2 h w q)"
    by (simp add: shape_tabulate2)
  have "tabulate2 h (if h = 0 then 0 else w)
          (\<lambda>i j. f (tabulate2 h w p ! i ! j) (tabulate2 h w q ! i ! j)) =
        tabulate2 h (if h = 0 then 0 else w) (\<lambda>i j. f (p i j) (q i j))"
    by (rule tabulate2_cong) (simp split: if_splits)
  then show ?thesis
    by (simp add: broadcast2_same [OF s] shape_tabulate2)
qed

lemma rows_astype_float64 [simp]: "rows (astype float64 a) = rows a"
  by (simp add: astype_def map_idI)

section \<open>Properties of the spectral index and of gap filling\<close>

lemma ndvi_px_range: "\<exists>r. ndvi_px n d = Fin r \<and> - 1 \<le> r \<and> r \<le> 1"
  by (cases "fdiv (fsub n d) (fadd n d)") (auto simp: ndvi_px_def)

lemma ndvi_px_not_nan: "\<not> isnan (ndvi_px n d)"
  using ndvi_px_range [of n d] by auto

lemma ndvi_px_zero_den: "fadd n d = Fin 0 \<Longrightarrow> ndvi_px n d = Fin 0"
  by (cases "fsub n d") (auto simp: ndvi_px_def)

lemma ndvi_px_not_finite: "\<not> isfinite (fdiv (fsub n d) (fadd n d)) \<Longrightarrow> ndvi_px n d = Fin 0"
  by (cases "fdiv (fsub n d) (fadd n d)") (auto simp: ndvi_px_def)

lemma ndvi_px_same: "ndvi_px x x = Fin 0"
  by (cases x) (auto simp: ndvi_px_def fsub_def)

lemma calculate_ndvi_same_shape:
  assumes "shape (rows nir) = shape (rows red)"
  shows "calculate_ndvi nir red =
    Inr \<lparr>dtype = float64,
         rows = tabulate2 (fst (shape (rows nir))) (snd (shape (rows nir)))
                  (\<lambda>i j. ndvi_px (rows nir ! i ! j) (rows red ! i ! j))\<rparr>"
  using assms
  by (simp add: calculate_ndvi_def broadcast2_same broadcast2_tabulate2 tabulate2_zero_width
      map_map_tabulate2 ndvi_px_def)

text \<open>
  What \<open>calculate_ndvi\<close> guarantees on bands of one shape: it returns an array of that
  shape whose every pixel is finite and within \<open>[-1, 1]\<close>, is 0 where the sum of the bands
  is 0, where the raw quotient is NaN or infinite, and where the two bands are equal.
\<close>

lemma calculate_ndvi_safe:
  assumes "shape (rows nir) = shape (rows red)"
    and "i < fst (shape (rows nir))" and "j < snd (shape (rows nir))"
  shows "\<exists>out. calculate_ndvi nir red = Inr out \<and> shape (rows out) = shape (rows nir)
    \<and> (\<exists>r. rows out ! i ! j = Fin r \<and> - 1 \<le> r \<and> r \<le> 1)
    \<and> (fadd (rows nir ! i ! j) (rows red ! i ! j) = Fin 0 \<longrightarrow> rows out ! i ! j = Fin 0)
    \<and> (\<not> isfinite (fdiv (fsub (rows nir ! i ! j) (rows red ! i ! j))
                          (fadd (rows nir ! i ! j) (rows red ! i ! j))) \<longrightarrow> rows out ! i ! j = Fin 0)
    \<and> (rows nir ! i ! j = rows red ! i ! j \<longrightarrow> rows out ! i ! j = Fin 0)"
  using assms
  by (simp add: calculate_ndvi_same_shape shape_tabulate2_shape ndvi_px_range ndvi_px_zero_den
      ndvi_px_not_finite ndvi_px_same)

text \<open>
  On bands of one shape \<open>fuse_gap_fill\<close> is the Sentinel index alone: the validity mask is
  taken after \<^verbatim>\<open>nan_to_num\<close> has replaced every NaN, so it is true at every pixel and the
  Landsat index is never selected.
\<close>

lemma fuse_gap_fill_is_sentinel_ndvi:
  assumes "shape (rows sentinel_nir) = shape (rows sentinel_red)"
    and "shape (rows landsat_nir) = shape (rows landsat_red)"
    and "shape (rows landsat_nir) = shape (rows sentinel_nir)"
  shows "fuse_gap_fill sentinel_nir sentinel_red landsat_nir landsat_red =
         calculate_ndvi sentinel_nir sentinel_red"
  using assms
  by (simp add: fuse_gap_fill_def calculate_ndvi_same_shape np_where_def map_map_tabulate2
      broadcast2_tabulate2 tabulate2_zero_width ndvi_px_not_nan)

text \<open>
  Claim C1 asks that the Landsat index be returned at every pixel where the Sentinel
  index is invalid. At the pixels below whose Sentinel bands are NaN or both 0 (a raw
  quotient \<open>0 / 0\<close>), \<open>fuse_gap_fill\<close> returns 0 and not the Landsat index \<open>3 / 5\<close>.
\<close>

theorem fuse_gap_fill_does_not_fill:
  "fuse_gap_fill \<lparr>dtype = float64, rows = [[Fin 6, NaN, Fin 0]]\<rparr>
                 \<lparr>dtype = float64, rows = [[Fin 2, NaN, Fin 0]]\<rparr>
                 \<lparr>dtype = float64, rows = [[Fin 8, Fin 8, Fin 8]]\<rparr>
                 \<lparr>dtype = float64, rows = [[Fin 2, Fin 2, Fin 2]]\<rparr>
     = Inr \<lparr>dtype = float64, rows = [[Fin (1 / 2), Fin 0, Fin 0]]\<rparr>
   \<and> calculate_ndvi \<lparr>dtype = float64, rows = [[Fin 8, Fin 8, Fin 8]]\<rparr>
                    \<lparr>dtype = float64, rows = [[Fin 2, Fin 2, Fin 2]]\<rparr>
     = Inr \<lparr>dtype = float64, rows = [[Fin (3 / 5), Fin (3 / 5), Fin (3 / 5)]]\<rparr>"
  by (simp add: fuse_gap_fill_is_sentinel_ndvi calculate_ndvi_same_shape shape_def ndvi_px_def
      fsub_def tabulate2_def upt_conv_Cons del: upt_Suc)

lemma compute_ndvi_same_shape:
  assumes "py_get fused_tensor nir_idx = Inr nir" and "py_get fused_tensor red_idx = Inr red"
    and "shape (rows nir) = shape (rows red)"
  shows "compute_ndvi fused_tensor nir_idx red_idx =
    Inr \<lparr>dtype = float64,
         rows = tabulate2 (fst (shape (rows nir))) (snd (shape (rows nir)))
           (\<lambda>i j. if fne (fadd (rows nir ! i ! j) (rows red ! i ! j)) (Fin 0)
                  then fdiv (fsub (rows nir ! i ! j) (rows red ! i ! j))
                            (fadd (rows nir ! i ! j) (rows red ! i ! j))
                  else Fin 0)\<rparr>"
  using assms
  by (simp add: compute_ndvi_def broadcast2_same broadcast2_tabulate2 tabulate2_zero_width Let_def)

text \<open>
  Claim C2 asks of the NDVI calculation that NaN be replaced by 0 and that the result lie
  within \<open>[-1, 1]\<close>. \<open>calculate_ndvi\<close> does both (\<open>calculate_ndvi_safe\<close>); \<open>compute_ndvi\<close>
  does neither: on the bands below it returns 3 at the first pixel and NaN at the second.
\<close>

theorem compute_ndvi_unclipped:
  "compute_ndvi [\<lparr>dtype = float64, rows = [[Fin 1, NaN]]\<rparr>,
                 \<lparr>dtype = float64, rows = [[Fin (- 1 / 2), Fin 1]]\<rparr>] 0 1
     = Inr \<lparr>dtype = float64, rows = [[Fin 3, NaN]]\<rparr>"
  by (simp add: compute_ndvi_same_shape py_get_def shape_def fsub_def fne_def
      tabulate2_def upt_conv_Cons del: upt_Suc)

section \<open>Properties of the band compositors\<close>

lemma np_stack_ok:
  assumes "images \<noteq> []" and "\<forall>a \<in> set images. shape (rows a) = shape (rows (hd images))"
  shows "np_stack images = Inr (map rows images)"
proof -
  have h: "\<not> (\<exists>a \<in> set images. shape (rows a) \<noteq> shape (rows (hd images)))"
    using assms(2) by blast
  show ?thesis
    unfolding np_stack_def by (simp only: if_not_P [OF assms(1)] if_not_P [OF h])
qed

lemma np_stack_mismatch:
  assumes "a \<in> set images" and "b \<in> set images" and "shape (rows a) \<noteq> shape (rows b)"
  shows "np_stack images = Inl (ValueError ''all input arrays must have the same shape'')"
proof -
  have "images \<noteq> []" using assms(1) by auto
  moreover have "\<exists>x \<in> set images. shape (rows x) \<noteq> shape (rows (hd images))"
    using assms by metis
  ultimately show ?thesis by (simp only: np_stack_def if_False if_True)
qed

lemma tl_mismatch:
  assumes "a \<in> set images" and "b \<in> set images" and "shape (rows a) \<noteq> shape (rows b)"
  shows "\<exists>img \<in> set (tl images). shape (rows img) \<noteq> shape (rows (hd images))"
proof -
  obtain x xs where im: "images = x # xs" using assms(1) by (cases images) auto
  have "\<exists>y \<in> set images. shape (rows y) \<noteq> shape (rows x)"
    using assms by metis
  then obtain y where "y \<in> set images" "shape (rows y) \<noteq> shape (rows x)" by blast
  then have "y \<in> set xs" using im by auto
  then show ?thesis using im \<open>shape (rows y) \<noteq> shape (rows x)\<close> by auto
qed

lemma hd_map_rows: "images \<noteq> [] \<Longrightarrow> hd (map rows images) = rows (hd images)"
  by (simp add: hd_map)

lemma fuse_mean_value:
  assumes "images \<noteq> []" and "\<forall>a \<in> set images. shape (rows a) = shape (rows (hd images))"
  shows "fuse_mean images =
    Inr \<lparr>dtype = dtype (hd images),
         rows = tabulate2 (fst (shape (rows (hd images)))) (snd (shape (rows (hd images))))
                  (\<lambda>i j. astype_val (dtype (hd images)) (np_mean_col (column (map rows images) i j)))\<rparr>"
  using assms(1) np_stack_ok [OF assms]
  by (simp add: fuse_mean_def astype_def reduce_axis0_def hd_map_rows map_map_tabulate2 Let_def)

lemma fuse_median_value:
  assumes "images \<noteq> []" and "\<forall>a \<in> set images. shape (rows a) = shape (rows (hd images))"
  shows "fuse_median images =
    Inr \<lparr>dtype = dtype (hd images),
         rows = tabulate2 (fst (shape (rows (hd images)))) (snd (shape (rows (hd images))))
                  (\<lambda>i j. astype_val (dtype (hd images)) (np_median_col (column (map rows images) i j)))\<rparr>"
  using assms(1) np_stack_ok [OF assms]
  by (simp add: fuse_median_def astype_def reduce_axis0_def hd_map_rows map_map_tabulate2 Let_def)

lemma get2_in: "i < fst (shape g) \<Longrightarrow> j < snd (shape g) \<Longrightarrow> get2 g i j = Inr (g ! i ! j)"
  by (simp add: get2_def)

lemma sequence_err_Inr: "sequence_err (map (\<lambda>x. Inr (f x)) xs) = Inr (map f xs)"
  by (induction xs) simp_all

lemma select_pixel_find:
  assumes "\<forall>m \<in> set masks. shape (rows m) = shp"
    and "\<forall>a \<in> set images. shape (rows a) = shp"
    and "k + length masks \<le> length images"
    and "i < fst shp" and "j < snd shp"
  shows "select_pixel images i j k masks =
    Inr (map_option (\<lambda>p. rows (fst p) ! i ! j)
          (find (\<lambda>p. fless (Fin 0) (rows (snd p) ! i ! j)) (zip (drop k images) masks)))"
  using assms(1,3)
proof (induction masks arbitrary: k)
  case Nil
  then show ?case by simp
next
  case (Cons q masks)
  have k: "k < length images" using Cons.prems(2) by simp
  then have d: "drop k images = images ! k # drop (Suc k) images"
    by (simp add: Cons_nth_drop_Suc)
  have sq: "shape (rows q) = shp" using Cons.prems(1) by simp
  have sk: "shape (rows (images ! k)) = shp" using assms(2) k by simp
  have gq: "get2 (rows q) i j = Inr (rows q ! i ! j)"
    using assms(4,5) by (simp add: get2_in sq)
  have gk: "get2 (rows (images ! k)) i j = Inr (rows (images ! k) ! i ! j)"
    using assms(4,5) by (simp add: get2_in sk)
  have ih: "select_pixel images i j (Suc k) masks =
    Inr (map_option (\<lambda>p. rows (fst p) ! i ! j)
          (find (\<lambda>p. fless (Fin 0) (rows (snd p) ! i ! j)) (zip (drop (Suc k) images) masks)))"
    using Cons.prems by (intro Cons.IH) simp_all
  show ?case
    by (simp add: gq gk k d ih)
qed

lemma np_median_col_single: "np_median_col [v] = v"
  by (cases v) (simp_all add: np_median_col_def np_sort_def Let_def)

lemma wf_ndarray_pixel:
  assumes "wf_ndarray a" and "i < fst (shape (rows a))" and "j < snd (shape (rows a))"
  shows "astype_val (dtype a) (rows a ! i ! j) = rows a ! i ! j"
proof -
  have i: "i < length (rows a)" using assms(2) by (simp add: shape_def)
  then have r: "rows a ! i \<in> set (rows a)" by simp
  then have "length (rows a ! i) = snd (shape (rows a))"
    using assms(1) by (auto simp: wf_ndarray_def rect_def list_all_iff)
  then have "rows a ! i ! j \<in> set (rows a ! i)" using assms(3) by simp
  then show ?thesis using assms(1) r by (auto simp: wf_ndarray_def list_all_iff)
qed

lemma best_pixel_spec_single:
  "best_pixel_spec [img] quality_masks i j = rows img ! i ! j"
  by (cases quality_masks) (simp_all add: best_pixel_spec_def column_def np_median_col_single)

lemma setitem_castable: "castable d v \<Longrightarrow> setitem_val d v = Inr (astype_val d v)"
  by (cases d; cases v) simp_all

lemma best_pixel_case:
  assumes "\<forall>m \<in> set masks. shape (rows m) = shp"
    and "\<forall>a \<in> set images. shape (rows a) = shp"
    and "length masks \<le> length images"
    and "i < fst shp" and "j < snd shp"
  shows "(case select_pixel images i j 0 masks of
            Inl e \<Rightarrow> Inl e
          | Inr (Some v) \<Rightarrow> c v
          | Inr None \<Rightarrow> c (np_median_col (column stack i j))) =
         c (case find (\<lambda>p. fless (Fin 0) (rows (snd p) ! i ! j)) (zip images masks) of
              Some p \<Rightarrow> rows (fst p) ! i ! j
            | None \<Rightarrow> np_median_col (column stack i j))"
proof -
  have "select_pixel images i j 0 masks =
    Inr (map_option (\<lambda>p. rows (fst p) ! i ! j)
          (find (\<lambda>p. fless (Fin 0) (rows (snd p) ! i ! j)) (zip (drop 0 images) masks)))"
    using assms by (intro select_pixel_find [where shp = shp]) simp_all
  then show ?thesis
    by (simp split: option.splits)
qed

lemma fuse_best_pixel_masks_value:
  assumes ne: "images \<noteq> []" and l: "length images \<noteq> 1"
    and sh: "\<forall>a \<in> set images. shape (rows a) = shape (rows (hd images))"
    and mne: "quality_masks \<noteq> []"
    and ml: "length quality_masks \<le> length images"
    and msh: "\<forall>m \<in> set quality_masks. shape (rows m) = shape (rows (hd images))"
    and cast: "\<forall>i < fst (shape (rows (hd images))). \<forall>j < snd (shape (rows (hd images))).
                 castable (dtype (hd images)) (best_pixel_spec images quality_masks i j)"
  shows "fuse_best_pixel images quality_masks =
    Inr \<lparr>dtype = dtype (hd images),
         rows = tabulate2 (fst (shape (rows (hd images)))) (snd (shape (rows (hd images))))
                  (\<lambda>i j. astype_val (dtype (hd images)) (best_pixel_spec images quality_masks i j))\<rparr>"
proof -
  let ?shp = "shape (rows (hd images))"
  let ?dt = "dtype (hd images)"
  have tl: "\<not> (\<exists>img \<in> set (tl images). shape (rows img) \<noteq> ?shp)"
    using sh ne by (metis list.set_sel(2))
  have st: "np_stack images = Inr (map rows images)"
    by (rule np_stack_ok [OF ne sh])
  have hm: "hd quality_masks \<in> set quality_masks" using mne by simp
  have "\<forall>m \<in> set quality_masks. shape (rows m) = shape (rows (hd quality_masks))"
    using msh hm by metis
  then have mst: "np_stack quality_masks = Inr (map rows quality_masks)"
    by (rule np_stack_ok [OF mne])
  have px: "(case select_pixel images i j 0 quality_masks of
            Inl e \<Rightarrow> Inl e
          | Inr (Some v) \<Rightarrow> setitem_val ?dt v
          | Inr None \<Rightarrow> setitem_val ?dt (np_median_col (column (map rows images) i j))) =
         Inr (astype_val ?dt (best_pixel_spec images quality_masks i j))"
    if i: "i < fst ?shp" and j: "j < snd ?shp" for i j
  proof -
    have "(case select_pixel images i j 0 quality_masks of
            Inl e \<Rightarrow> Inl e
          | Inr (Some v) \<Rightarrow> setitem_val ?dt v
          | Inr None \<Rightarrow> setitem_val ?dt (np_median_col (column (map rows images) i j))) =
         setitem_val ?dt (best_pixel_spec images quality_masks i j)"
      unfolding best_pixel_spec_def
      by (rule best_pixel_case [where shp = ?shp and c = "setitem_val ?dt", OF msh sh ml i j])
    also have "\<dots> = Inr (astype_val ?dt (best_pixel_spec images quality_masks i j))"
      using cast i j by (intro setitem_castable) simp
    finally show ?thesis .
  qed
  have row: "\<And>i. i < fst ?shp \<Longrightarrow>
      sequence_err (map (\<lambda>j.
         (case select_pixel images i j 0 quality_masks of
            Inl e \<Rightarrow> Inl e
          | Inr (Some v) \<Rightarrow> setitem_val ?dt v
          | Inr None \<Rightarrow> setitem_val ?dt (np_median_col (column (map rows images) i j))))
         [0..<snd ?shp]) =
      Inr (map (\<lambda>j. astype_val ?dt (best_pixel_spec images quality_masks i j)) [0..<snd ?shp])"
  proof -
    fix i assume i: "i < fst ?shp"
    have "map (\<lambda>j.
         (case select_pixel images i j 0 quality_masks of
            Inl e \<Rightarrow> Inl e
          | Inr (Some v) \<Rightarrow> setitem_val ?dt v
          | Inr None \<Rightarrow> setitem_val ?dt (np_median_col (column (map rows images) i j))))
         [0..<snd ?shp] =
       map (\<lambda>j. Inr (astype_val ?dt (best_pixel_spec images quality_masks i j))) [0..<snd ?shp]"
      by (rule map_cong [OF refl]) (simp add: px [OF i])
    then show "sequence_err (map (\<lambda>j.
         (case select_pixel images i j 0 quality_masks of
            Inl e \<Rightarrow> Inl e
          | Inr (Some v) \<Rightarrow> setitem_val ?dt v
          | Inr None \<Rightarrow> setitem_val ?dt (np_median_col (column (map rows images) i j))))
         [0..<snd ?shp]) =
      Inr (map (\<lambda>j. astype_val ?dt (best_pixel_spec images quality_masks i j)) [0..<snd ?shp])"
      by (simp only: sequence_err_Inr)
  qed
  have all: "sequence_err (map (\<lambda>i. sequence_err (map (\<lambda>j.
         (case select_pixel images i j 0 quality_masks of
            Inl e \<Rightarrow> Inl e
          | Inr (Some v) \<Rightarrow> setitem_val ?dt v
          | Inr None \<Rightarrow> setitem_val ?dt (np_median_col (column (map rows images) i j))))
         [0..<snd ?shp])) [0..<fst ?shp]) =
      Inr (tabulate2 (fst ?shp) (snd ?shp)
             (\<lambda>i j. astype_val ?dt (best_pixel_spec images quality_masks i j)))"
  proof -
    have "map (\<lambda>i. sequence_err (map (\<lambda>j.
         (case select_pixel images i j 0 quality_masks of
            Inl e \<Rightarrow> Inl e
          | Inr (Some v) \<Rightarrow> setitem_val ?dt v
          | Inr None \<Rightarrow> setitem_val ?dt (np_median_col (column (map rows images) i j))))
         [0..<snd ?shp])) [0..<fst ?shp] =
      map (\<lambda>i. Inr (map (\<lambda>j. astype_val ?dt (best_pixel_spec images quality_masks i j)) [0..<snd ?shp]))
        [0..<fst ?shp]"
      by (rule map_cong [OF refl]) (simp add: row)
    then show ?thesis
      by (simp only: sequence_err_Inr tabulate2_def)
  qed
  show ?thesis
    unfolding fuse_best_pixel_def Let_def
    by (simp only: if_not_P [OF ne] if_not_P [OF l] if_not_P [OF tl] if_P [OF mne] st mst all
        sum.case)
qed

lemma fuse_best_pixel_nomask_value:
  assumes ne: "images \<noteq> []" and l: "length images \<noteq> 1"
    and sh: "\<forall>a \<in> set images. shape (rows a) = shape (rows (hd images))"
  shows "fuse_best_pixel images [] =
    Inr \<lparr>dtype = dtype (hd images),
         rows = tabulate2 (fst (shape (rows (hd images)))) (snd (shape (rows (hd images))))
                  (\<lambda>i j. astype_val (dtype (hd images)) (best_pixel_spec images [] i j))\<rparr>"
proof -
  have tl: "\<not> (\<exists>img \<in> set (tl images). shape (rows img) \<noteq> shape (rows (hd images)))"
    using sh ne by (metis list.set_sel(2))
  have st: "np_stack images = Inr (map rows images)"
    by (rule np_stack_ok [OF ne sh])
  have "fuse_best_pixel images [] =
      Inr (astype (dtype (hd images))
            \<lparr>dtype = float64, rows = reduce_axis0 np_median_col (map rows images)\<rparr>)"
    unfolding fuse_best_pixel_def Let_def
    by (simp only: if_not_P [OF ne] if_not_P [OF l] if_not_P [OF tl] st sum.case not_False_eq_True
        simp_thms if_False)
  then show ?thesis
    using ne
    by (simp add: astype_def reduce_axis0_def hd_map_rows map_map_tabulate2 best_pixel_spec_def Let_def)
qed

text \<open>
  Claim C6. When the input list holds two grids of differing shapes, each of
  \<open>fuse_mean\<close>, \<open>fuse_median\<close> and \<open>fuse_best_pixel\<close> (with any quality masks) raises a
  ValueError about the shapes and returns no composite.
\<close>

theorem fuse_shape_mismatch:
  assumes "a \<in> set images" and "b \<in> set images" and "shape (rows a) \<noteq> shape (rows b)"
  shows "fuse_mean images = Inl (ValueError ''all input arrays must have the same shape'')
       \<and> fuse_median images = Inl (ValueError ''all input arrays must have the same shape'')
       \<and> fuse_best_pixel images quality_masks = Inl (ValueError ''All images must have the same shape'')"
proof -
  have ne: "images \<noteq> []" using assms(1) by auto
  have l: "length images \<noteq> 1"
  proof
    assume "length images = 1"
    then obtain x where "images = [x]" by (cases images) auto
    then show False using assms by auto
  qed
  show ?thesis
    using ne l np_stack_mismatch [OF assms] tl_mismatch [OF assms]
    by (simp add: fuse_mean_def fuse_median_def fuse_best_pixel_def Let_def)
qed

theorem fuse_shape_mismatch_witness:
  "fuse_mean [\<lparr>dtype = float64, rows = [[Fin 1]]\<rparr>, \<lparr>dtype = float64, rows = [[Fin 1, Fin 2]]\<rparr>]
     = Inl (ValueError ''all input arrays must have the same shape'')
   \<and> fuse_median [\<lparr>dtype = float64, rows = [[Fin 1]]\<rparr>, \<lparr>dtype = float64, rows = [[Fin 1, Fin 2]]\<rparr>]
     = Inl (ValueError ''all input arrays must have the same shape'')
   \<and> fuse_best_pixel [\<lparr>dtype = float64, rows = [[Fin 1]]\<rparr>, \<lparr>dtype = float64, rows = [[Fin 1, Fin 2]]\<rparr>] []
     = Inl (ValueError ''All images must have the same shape'')"
  using fuse_shape_mismatch [of "\<lparr>dtype = float64, rows = [[Fin 1]]\<rparr>"
      "[\<lparr>dtype = float64, rows = [[Fin 1]]\<rparr>, \<lparr>dtype = float64, rows = [[Fin 1, Fin 2]]\<rparr>]"
      "\<lparr>dtype = float64, rows = [[Fin 1, Fin 2]]\<rparr>" "[]"]
  by (simp add: shape_def)

text \<open>
  Claim C10. \<open>fuse_mean\<close> and \<open>fuse_median\<close> cast the elementwise mean and median to the
  dtype of the first grid, so that for an integer first grid the value is truncated; on
  two integer grids of 10 and 15 both return 12 where the mean is \<open>25 / 2\<close>.
\<close>

theorem fuse_mean_median_cast:
  assumes "images \<noteq> []" and "\<forall>a \<in> set images. shape (rows a) = shape (rows (hd images))"
    and "i < fst (shape (rows (hd images)))" and "j < snd (shape (rows (hd images)))"
  shows "\<exists>m d. fuse_mean images = Inr m \<and> fuse_median images = Inr d
    \<and> dtype m = dtype (hd images) \<and> dtype d = dtype (hd images)
    \<and> rows m ! i ! j = astype_val (dtype (hd images)) (np_mean_col (column (map rows images) i j))
    \<and> rows d ! i ! j = astype_val (dtype (hd images)) (np_median_col (column (map rows images) i j))
    \<and> (\<forall>r. dtype (hd images) = int64 \<and> np_mean_col (column (map rows images) i j) = Fin r
           \<longrightarrow> rows m ! i ! j = Fin (of_int (trunc r)))
    \<and> (\<forall>r. dtype (hd images) = int64 \<and> np_median_col (column (map rows images) i j) = Fin r
           \<longrightarrow> rows d ! i ! j = Fin (of_int (trunc r)))"
  using assms(3,4) by (simp add: fuse_mean_value [OF assms(1,2)] fuse_median_value [OF assms(1,2)])

theorem fuse_mean_median_cast_witness:
  "\<exists>m d. fuse_mean [\<lparr>dtype = int64, rows = [[Fin 10]]\<rparr>, \<lparr>dtype = int64, rows = [[Fin 15]]\<rparr>] = Inr m
     \<and> fuse_median [\<lparr>dtype = int64, rows = [[Fin 10]]\<rparr>, \<lparr>dtype = int64, rows = [[Fin 15]]\<rparr>] = Inr d
     \<and> dtype m = int64 \<and> dtype d = int64
     \<and> rows m ! 0 ! 0 = Fin 12 \<and> rows d ! 0 ! 0 = Fin 12
     \<and> np_mean_col [Fin 10, Fin 15] = Fin (25 / 2)
     \<and> np_median_col [Fin 10, Fin 15] = Fin (25 / 2)"
  using fuse_mean_median_cast [of "[\<lparr>dtype = int64, rows = [[Fin 10]]\<rparr>, \<lparr>dtype = int64, rows = [[Fin 15]]\<rparr>]" 0 0]
  by (simp add: shape_def column_def np_mean_col_def np_median_col_def np_sort_def trunc_def Let_def)
    blast

text \<open>
  Claim C3, as stated, promises the median itself where no mask is greater than 0. On two
  integer grids of 10 and 15 whose masks are 0 the function returns 12, the median
  \<open>25 / 2\<close> cast to the integer dtype of the first grid.
\<close>

theorem fuse_best_pixel_truncates_counterexample:
  "fuse_best_pixel [\<lparr>dtype = int64, rows = [[Fin 10]]\<rparr>, \<lparr>dtype = int64, rows = [[Fin 15]]\<rparr>]
                   [\<lparr>dtype = int64, rows = [[Fin 0]]\<rparr>, \<lparr>dtype = int64, rows = [[Fin 0]]\<rparr>]
     = Inr \<lparr>dtype = int64, rows = [[Fin 12]]\<rparr>
   \<and> np_median_col [Fin 10, Fin 15] = Fin (25 / 2)"
  by (simp add: fuse_best_pixel_def np_stack_def shape_def get2_def column_def np_median_col_def
      np_mean_col_def np_sort_def trunc_def in_int64_def Let_def)

text \<open>
  With masks and an integer first grid, a selected value or a median that is NaN or
  infinite makes the assignment to the result raise: no grid is returned.
\<close>

lemma fuse_best_pixel_nan_into_int:
  "fuse_best_pixel [\<lparr>dtype = int64, rows = [[Fin 10]]\<rparr>, \<lparr>dtype = float64, rows = [[NaN]]\<rparr>]
                   [\<lparr>dtype = int64, rows = [[Fin 0]]\<rparr>, \<lparr>dtype = int64, rows = [[Fin 0]]\<rparr>]
     = Inl (ValueError ''cannot convert float NaN to integer'')"
  by (simp add: fuse_best_pixel_def np_stack_def shape_def get2_def column_def np_median_col_def
      Let_def)

lemma fuse_best_pixel_inf_into_int:
  "fuse_best_pixel [\<lparr>dtype = int64, rows = [[Fin 10]]\<rparr>, \<lparr>dtype = float64, rows = [[PInf]]\<rparr>]
                   [\<lparr>dtype = int64, rows = [[Fin 0]]\<rparr>, \<lparr>dtype = int64, rows = [[Fin 1]]\<rparr>]
     = Inl OverflowError"
  by (simp add: fuse_best_pixel_def np_stack_def shape_def get2_def Let_def)

text \<open>
  Claim C3, amended. For a non-empty list of well-formed grids of one shape and at most
  one mask of that shape per observation (none at all included), such that for an integer
  first grid the value selected at every pixel is finite and truncates to an int64,
  \<open>fuse_best_pixel\<close> returns a grid of that shape and of the dtype of the first grid
  whose pixel \<open>(i, j)\<close> is the value of the first observation, in input order, whose
  mask is greater than 0 there, or the median of all observations when there is none,
  cast to the dtype of the first grid.
\<close>

theorem fuse_best_pixel_selects:
  assumes ne: "images \<noteq> []"
    and wf: "\<forall>a \<in> set images. wf_ndarray a"
    and sh: "\<forall>a \<in> set images. shape (rows a) = shape (rows (hd images))"
    and ml: "length quality_masks \<le> length images"
    and msh: "\<forall>m \<in> set quality_masks. shape (rows m) = shape (rows (hd images))"
    and cast: "\<forall>i < fst (shape (rows (hd images))). \<forall>j < snd (shape (rows (hd images))).
                 castable (dtype (hd images)) (best_pixel_spec images quality_masks i j)"
    and i: "i < fst (shape (rows (hd images)))" and j: "j < snd (shape (rows (hd images)))"
  shows "\<exists>out. fuse_best_pixel images quality_masks = Inr out
    \<and> dtype out = dtype (hd images)
    \<and> shape (rows out) = shape (rows (hd images))
    \<and> rows out ! i ! j = astype_val (dtype (hd images)) (best_pixel_spec images quality_masks i j)"
proof (cases "length images = 1")
  case True
  then obtain img where im: "images = [img]" by (cases images) auto
  have "wf_ndarray img" using wf im by simp
  then have "astype_val (dtype img) (rows img ! i ! j) = rows img ! i ! j"
    using i j im by (intro wf_ndarray_pixel) simp_all
  then show ?thesis
    by (simp add: im fuse_best_pixel_def best_pixel_spec_single)
next
  case False
  show ?thesis
  proof (cases "quality_masks = []")
    case True
    show ?thesis
      using i j
      by (simp add: True fuse_best_pixel_nomask_value [OF ne False sh] shape_tabulate2_shape)
  next
    case mne: False
    show ?thesis
      using i j
      by (simp add: fuse_best_pixel_masks_value [OF ne False sh mne ml msh cast] shape_tabulate2_shape)
  qed
qed

theorem fuse_best_pixel_selects_witness:
  "(\<exists>out. fuse_best_pixel
       [\<lparr>dtype = int64, rows = [[Fin 1, Fin 2]]\<rparr>, \<lparr>dtype = float64, rows = [[Fin 3, Fin 5]]\<rparr>]
       [\<lparr>dtype = int64, rows = [[Fin 0, Fin 0]]\<rparr>, \<lparr>dtype = int64, rows = [[Fin 1, Fin 0]]\<rparr>] = Inr out
     \<and> dtype out = int64 \<and> rows out ! 0 ! 0 = Fin 3)
   \<and> (\<exists>out. fuse_best_pixel
       [\<lparr>dtype = int64, rows = [[Fin 1, Fin 2]]\<rparr>, \<lparr>dtype = float64, rows = [[Fin 3, Fin 5]]\<rparr>]
       [\<lparr>dtype = int64, rows = [[Fin 0, Fin 0]]\<rparr>, \<lparr>dtype = int64, rows = [[Fin 1, Fin 0]]\<rparr>] = Inr out
     \<and> dtype out = int64 \<and> rows out ! 0 ! 1 = Fin 3)"
proof -
  let ?images = "[\<lparr>dtype = int64, rows = [[Fin 1, Fin 2]]\<rparr>, \<lparr>dtype = float64, rows = [[Fin 3, Fin 5]]\<rparr>]"
  let ?masks = "[\<lparr>dtype = int64, rows = [[Fin 0, Fin 0]]\<rparr>, \<lparr>dtype = int64, rows = [[Fin 1, Fin 0]]\<rparr>]"
  have b0: "best_pixel_spec ?images ?masks 0 0 = Fin 3"
    by (simp add: best_pixel_spec_def)
  have b1: "best_pixel_spec ?images ?masks 0 (Suc 0) = Fin (7 / 2)"
    by (simp add: best_pixel_spec_def column_def np_mean_col_def np_median_col_def np_sort_def Let_def)
  have cast: "\<forall>i < fst (shape (rows (hd ?images))). \<forall>j < snd (shape (rows (hd ?images))).
                castable (dtype (hd ?images)) (best_pixel_spec ?images ?masks i j)"
    using b0 b1 by (simp add: shape_def in_int64_def trunc_def less_Suc_eq)
  have h: "?images \<noteq> []" "\<forall>a \<in> set ?images. wf_ndarray a"
    "\<forall>a \<in> set ?images. shape (rows a) = shape (rows (hd ?images))"
    "length ?masks \<le> length ?images"
    "\<forall>m \<in> set ?masks. shape (rows m) = shape (rows (hd ?images))"
    by (simp_all add: wf_ndarray_def rect_def shape_def trunc_def)
  have i0: "0 < fst (shape (rows (hd ?images)))" and j0: "0 < snd (shape (rows (hd ?images)))"
    and j1: "Suc 0 < snd (shape (rows (hd ?images)))"
    by (simp_all add: shape_def)
  show ?thesis
    using fuse_best_pixel_selects [OF h cast i0 j0] fuse_best_pixel_selects [OF h cast i0 j1]
    by (simp add: b0 b1 trunc_def) blast
qed

section \<open>Properties of the resamplers\<close>

lemma trunc_nonneg: "0 \<le> x \<Longrightarrow> trunc x = \<lfloor>x\<rfloor>"
  by (simp add: trunc_def)

lemma trunc_div_nat:
  assumes "0 < b"
  shows "trunc (real_of_int (int a) / real_of_int (int b)) = int (a div b)"
proof -
  have "0 \<le> real_of_int (int a) / real_of_int (int b)" by simp
  then have "trunc (real_of_int (int a) / real_of_int (int b)) = \<lfloor>real_of_int (int a) / real_of_int (int b)\<rfloor>"
    by (rule trunc_nonneg)
  also have "\<dots> = int a div int b" by (rule floor_divide_of_int_eq)
  also have "\<dots> = int (a div b)" by (simp add: zdiv_int)
  finally show ?thesis .
qed

lemma nearest_indices_nat:
  assumes "0 < new_n"
  shows "nearest_indices n new_n = map (\<lambda>i. int ((i * n) div nat new_n)) [0..<nat new_n]"
proof -
  have b: "0 < nat new_n" using assms by simp
  have e: "real_of_int new_n = real_of_int (int (nat new_n))" using assms by simp
  show ?thesis
    unfolding nearest_indices_def e
    using trunc_div_nat [OF b] by (simp flip: of_nat_mult)
qed

lemma nearest_index_bound:
  assumes "i < m" and "0 < n"
  shows "(i * n) div m < (n :: nat)"
proof -
  have "i * n < n * m" using assms by simp
  then show ?thesis
    using assms(1) by (simp add: div_less_iff_less_mult)
qed

lemma sequence_err_py_norm:
  assumes "\<forall>k \<in> set idx. k < n"
  shows "sequence_err (map (py_norm n) (map int idx)) = Inr idx"
proof -
  have m: "map (py_norm n) (map int idx) = map (\<lambda>k. Inr k) idx"
    using assms by (simp add: py_norm_def)
  show ?thesis
    unfolding m by (rule sequence_err_Inr [of "\<lambda>k. k" idx, simplified])
qed

lemma resample_nearest_value:
  assumes "0 < fst (shape (rows array))" and "0 < snd (shape (rows array))"
    and "0 < new_h" and "0 < new_w"
  shows "resample_nearest array new_h new_w =
    Inr \<lparr>dtype = dtype array,
         rows = tabulate2 (nat new_h) (nat new_w)
           (\<lambda>i j. rows array ! ((i * fst (shape (rows array))) div nat new_h)
                             ! ((j * snd (shape (rows array))) div nat new_w))\<rparr>"
proof -
  let ?h = "fst (shape (rows array))" and ?w = "snd (shape (rows array))"
  let ?ys = "map (\<lambda>i. (i * ?h) div nat new_h) [0..<nat new_h]"
  let ?xs = "map (\<lambda>j. (j * ?w) div nat new_w) [0..<nat new_w]"
  have ny: "nearest_indices ?h new_h = map int ?ys"
    by (simp add: nearest_indices_nat [OF assms(3)] comp_def)
  have nx: "nearest_indices ?w new_w = map int ?xs"
    by (simp add: nearest_indices_nat [OF assms(4)] comp_def)
  have bdy: "\<forall>k \<in> set ?ys. k < ?h"
    using assms(1) by (auto simp: nearest_index_bound)
  have bdx: "\<forall>k \<in> set ?xs. k < ?w"
    using assms(2) by (auto simp: nearest_index_bound)
  show ?thesis
    unfolding resample_nearest_def ix_select_def Let_def ny nx
      sequence_err_py_norm [OF bdy] sequence_err_py_norm [OF bdx]
    by (simp add: tabulate2_def comp_def)
qed

lemma pixel_in_concat:
  assumes "rect g" and "y < fst (shape g)" and "x < snd (shape g)"
  shows "g ! y ! x \<in> set (concat g)"
proof -
  have y: "y < length g" using assms(2) by (simp add: shape_def)
  then have "length (g ! y) = snd (shape g)"
    using assms(1) by (auto simp: rect_def list_all_iff)
  then have "g ! y ! x \<in> set (g ! y)" using assms(3) by simp
  then show ?thesis using y by auto
qed

lemma set_concat_tabulate2:
  "set (concat (tabulate2 h w f)) = {f i j | i j. i < h \<and> j < w}"
  by (auto simp: tabulate2_def) blast

lemma resample_to_target_nearest:
  assumes "0 < fst (shape (rows source))" and "0 < snd (shape (rows source))"
  shows "resample_to_target zoom source target_shape ''nearest'' =
    (if shape (rows source) = target_shape then Inr source
     else zoom source (real (fst target_shape) / real (fst (shape (rows source))),
                       real (snd target_shape) / real (snd (shape (rows source)))) 0)"
  using assms by (simp add: resample_to_target_def Let_def)


lemma zoom_index_less:
  assumes "0 < n"
  shows "zoom_index n out k < n"
proof -
  have "zoom_index n out k \<le> n - 1"
    unfolding zoom_index_def by (rule min.cobounded1)
  then show ?thesis using assms by simp
qed

lemma zoom_order0_contract: "order0_contract zoom_order0"
  unfolding order0_contract_def
proof (intro allI impI)
  fix input :: ndarray and z :: "real \<times> real"
  assume a: "rect (rows input) \<and> 0 < fst (shape (rows input)) \<and> 0 < snd (shape (rows input))
                 \<and> 0 < fst z \<and> 0 < snd z"
  let ?h = "fst (shape (rows input))" and ?w = "snd (shape (rows input))"
  let ?oh = "nat (round (real ?h * fst z))" and ?ow = "nat (round (real ?w * snd z))"
  have "set (concat (tabulate2 ?oh ?ow (\<lambda>i j. rows input ! zoom_index ?h ?oh i ! zoom_index ?w ?ow j)))
        \<subseteq> set (concat (rows input))"
  proof
    fix v
    assume "v \<in> set (concat (tabulate2 ?oh ?ow
               (\<lambda>i j. rows input ! zoom_index ?h ?oh i ! zoom_index ?w ?ow j)))"
    then obtain i j where v: "v = rows input ! zoom_index ?h ?oh i ! zoom_index ?w ?ow j"
      unfolding set_concat_tabulate2 by blast
    show "v \<in> set (concat (rows input))"
      unfolding v using a by (intro pixel_in_concat zoom_index_less) simp_all
  qed
  then show "\<exists>out. zoom_order0 input z 0 = Inr out \<and> set (concat (rows out)) \<subseteq> set (concat (rows input))"
    by (simp add: zoom_order0_def Let_def)
qed

lemma resample_to_target_preserves:
  assumes "rect (rows source)"
    and "0 < fst (shape (rows source))" and "0 < snd (shape (rows source))"
    and "order0_contract zoom" and "0 < fst target_shape" and "0 < snd target_shape"
  shows "\<exists>out. resample_to_target zoom source target_shape ''nearest'' = Inr out
           \<and> set (concat (rows out)) \<subseteq> set (concat (rows source))"
proof (cases "shape (rows source) = target_shape")
  case True
  then show ?thesis by (simp add: resample_to_target_def)
next
  case False
  have "0 < real (fst target_shape) / real (fst (shape (rows source)))"
    "0 < real (snd target_shape) / real (snd (shape (rows source)))"
    using assms(2,3,5,6) by simp_all
  then obtain out where
    "zoom source (real (fst target_shape) / real (fst (shape (rows source))),
                  real (snd target_shape) / real (snd (shape (rows source)))) 0 = Inr out"
    "set (concat (rows out)) \<subseteq> set (concat (rows source))"
    using assms(1-4) unfolding order0_contract_def by (metis fst_conv snd_conv)
  then show ?thesis
    using False by (simp add: resample_to_target_nearest [OF assms(2,3)])
qed

text \<open>
  Claim C8. For a non-empty two-dimensional source and a positive target shape, nearest
  neighbour resampling returns a grid of the target shape and of the source's dtype whose
  values all occur in the source, and every row and column index it computes lies within
  the source. \<open>resample_to_target\<close> with method \<open>nearest\<close>, given a library zoom that
  keeps its promise for order 0, returns for a positive target shape a grid whose values
  all occur in the source.
\<close>

theorem resample_nearest_preserves_values:
  assumes "rect (rows array)"
    and "0 < fst (shape (rows array))" and "0 < snd (shape (rows array))"
    and "0 < new_h" and "0 < new_w"
  shows "\<exists>out. resample_nearest array new_h new_w = Inr out
    \<and> dtype out = dtype array
    \<and> shape (rows out) = (nat new_h, nat new_w)
    \<and> set (concat (rows out)) \<subseteq> set (concat (rows array))
    \<and> (\<forall>y \<in> set (nearest_indices (fst (shape (rows array))) new_h).
          0 \<le> y \<and> y < int (fst (shape (rows array))))
    \<and> (\<forall>x \<in> set (nearest_indices (snd (shape (rows array))) new_w).
          0 \<le> x \<and> x < int (snd (shape (rows array))))
    \<and> (order0_contract zoom \<and> 0 < fst target_shape \<and> 0 < snd target_shape \<longrightarrow>
         (\<exists>out. resample_to_target zoom array target_shape ''nearest'' = Inr out
            \<and> set (concat (rows out)) \<subseteq> set (concat (rows array))))"
proof -
  have v: "set (concat (tabulate2 (nat new_h) (nat new_w)
           (\<lambda>i j. rows array ! ((i * fst (shape (rows array))) div nat new_h)
                             ! ((j * snd (shape (rows array))) div nat new_w))))
        \<subseteq> set (concat (rows array))"
  proof
    fix v
    assume "v \<in> set (concat (tabulate2 (nat new_h) (nat new_w)
           (\<lambda>i j. rows array ! ((i * fst (shape (rows array))) div nat new_h)
                             ! ((j * snd (shape (rows array))) div nat new_w))))"
    then obtain i j where i: "i < nat new_h" and j: "j < nat new_w"
      and v: "v = rows array ! ((i * fst (shape (rows array))) div nat new_h)
                            ! ((j * snd (shape (rows array))) div nat new_w)"
      unfolding set_concat_tabulate2 by blast
    show "v \<in> set (concat (rows array))"
      unfolding v
      by (intro pixel_in_concat [OF assms(1)] nearest_index_bound i j assms(2,3))
  qed
  have iy: "\<forall>y \<in> set (nearest_indices (fst (shape (rows array))) new_h).
          0 \<le> y \<and> y < int (fst (shape (rows array)))"
    using assms(2) by (auto simp: nearest_indices_nat [OF assms(4)] nearest_index_bound)
  have ix: "\<forall>x \<in> set (nearest_indices (snd (shape (rows array))) new_w).
          0 \<le> x \<and> x < int (snd (shape (rows array)))"
    using assms(3) by (auto simp: nearest_indices_nat [OF assms(5)] nearest_index_bound)
  show ?thesis
    using v iy ix assms(4)
    using resample_to_target_preserves [OF assms(1-3), of zoom target_shape]
    by (simp add: resample_nearest_value [OF assms(2-5)] shape_tabulate2)
qed

theorem resample_nearest_preserves_values_witness:
  "(\<exists>out. resample_nearest \<lparr>dtype = int64, rows = [[Fin 1, Fin 2], [Fin 3, Fin 4]]\<rparr> 3 5 = Inr out
      \<and> shape (rows out) = (3, 5)
      \<and> set (concat (rows out)) \<subseteq> {Fin 1, Fin 2, Fin 3, Fin 4})
   \<and> order0_contract zoom_order0
   \<and> (\<exists>out. resample_to_target zoom_order0
               \<lparr>dtype = int64, rows = [[Fin 1, Fin 2], [Fin 3, Fin 4]]\<rparr> (3, 5) ''nearest'' = Inr out
      \<and> set (concat (rows out)) \<subseteq> {Fin 1, Fin 2, Fin 3, Fin 4})"
  using resample_nearest_preserves_values
    [of "\<lparr>dtype = int64, rows = [[Fin 1, Fin 2], [Fin 3, Fin 4]]\<rparr>" 3 5 zoom_order0 "(3, 5)"]
    zoom_order0_contract
  by (simp add: rect_def shape_def) blast

lemma resample_to_target_example:
  "resample_to_target zoom_order0
     \<lparr>dtype = int64, rows = [[Fin 1, Fin 2], [Fin 3, Fin 4]]\<rparr> (3, 5) ''nearest'' =
   Inr \<lparr>dtype = int64,
        rows = [[Fin 1, Fin 1, Fin 2, Fin 2, Fin 2],
                [Fin 3, Fin 3, Fin 4, Fin 4, Fin 4],
                [Fin 3, Fin 3, Fin 4, Fin 4, Fin 4]]\<rparr>"
  by (simp add: resample_to_target_def zoom_order0_def zoom_index_def shape_def tabulate2_def
      Let_def upt_conv_Cons del: upt_Suc)

lemma resample_nearest_example:
  "resample_nearest \<lparr>dtype = int64, rows = [[Fin 1, Fin 2], [Fin 3, Fin 4]]\<rparr> 3 5 =
   Inr \<lparr>dtype = int64,
        rows = [[Fin 1, Fin 1, Fin 1, Fin 2, Fin 2],
                [Fin 1, Fin 1, Fin 1, Fin 2, Fin 2],
                [Fin 3, Fin 3, Fin 3, Fin 4, Fin 4]]\<rparr>"
  by (subst resample_nearest_value) (simp_all add: shape_def tabulate2_def upt_conv_Cons del: upt_Suc)

text \<open>
  Claim C9. \<open>resample_array\<close> with method \<open>bicubic\<close> returns what it returns with method
  \<open>bilinear\<close> on the same arguments, an exception included.
\<close>

theorem resample_array_bicubic_is_bilinear:
  "resample_array array source_resolution target_resolution ''bicubic'' =
   resample_array array source_resolution target_resolution ''bilinear''"
  by (simp add: resample_array_def resample_bicubic_def Let_def)

lemma resample_array_bicubic_example:
  "resample_array \<lparr>dtype = float64, rows = [[Fin 1, Fin 2], [Fin 3, Fin 4]]\<rparr> 30 20 ''bicubic'' =
   Inr \<lparr>dtype = float64,
        rows = [[Fin 1, Fin (3 / 2), Fin 2], [Fin 2, Fin (5 / 2), Fin 3],
                [Fin 3, Fin (7 / 2), Fin 4]]\<rparr>"
  by (simp add: resample_array_def resample_bicubic_def resample_bilinear_def bilinear_pixel_def
      linspace0_def py_get2_def py_norm_def shape_def trunc_def Let_def upt_conv_Cons del: upt_Suc)

section \<open>Properties of the cache cleanup\<close>










lemma cleanup_counts_file_it_could_not_remove:
  "cleanup_old_cache example_fromisoformat 63871459200000000
     (example_cache\<lparr>remove_fails := (\<lambda>p. p = (Thumb, ''a''))\<rparr>) 7 =
   Inr (example_cache\<lparr>remove_fails := (\<lambda>p. p = (Thumb, ''a'')),
                       files := [(Thumb, ''a'') \<mapsto> 524288, (Full, ''b'') \<mapsto> 7]\<rparr>,
        \<lparr>items_removed = 0, space_freed_mb = 3 / 2\<rparr>)"
  by (simp add: cleanup_old_cache_def cutoff_time_def datetime_max_def keys_to_remove_def is_old_def
      example_fromisoformat_def example_cache_def Let_def fun_eq_iff)

lemma cleanup_overflow:
  "cleanup_old_cache fromisoformat 63871459200000000 st 1000000 = Inl OverflowError"
  by (simp add: cleanup_old_cache_def cutoff_time_def)




end
